theory Spec2Isabelle
  imports Main "HOL-Library.Word"
begin

unbundle bit_operations_syntax

section \<open>The media stream of \<^verbatim>\<open>src/media_stream.cc\<close>\<close>

text \<open>
  The class \<open>kvz_rtp::media_stream\<close> composes a socket, an RTP context, an optional SRTP
  context, a sender and a receiver. This theory embeds its constructors, its destructor,
  the two \<open>init\<close> overloads and the frame and configuration methods.

  A data member \<open>x_\<close> of the class is the record field \<open>x_m\<close> (a name cannot end in an
  underscore here). The collaborators (socket, rtp, zrtp, srtp, sender, receiver) are
  other translation units: every call the stream makes on one of them is recorded as an
  \<open>event\<close>, and what the call returns is read from an environment \<open>env\<close>.
\<close>

subsection \<open>Scalar types\<close>

type_synonym c_int = "32 word"
type_synonym ssize_t = "64 word"
type_synonym uint32_t = "32 word"

text \<open>\<open>rtp_format_t\<close> is an enumeration declared in another header; the stream only stores
  and forwards it.\<close>

type_synonym rtp_format_t = nat

text \<open>
  \<open>rtp_error_t\<close>: the five enumerators the source file names, and \<open>RTP_OTHER_ERROR n\<close>
  for any other enumerator a collaborator may return.
\<close>

datatype rtp_error_t =
    RTP_OK
  | RTP_GENERIC_ERROR
  | RTP_BIND_ERROR
  | RTP_INVALID_VALUE
  | RTP_MEMORY_ERROR
  | RTP_OTHER_ERROR int

text \<open>
  An object pointer held by the stream. A member that no constructor assigns is
  \<open>Indeterminate\<close> (the class declaration is in a header that is not at hand; its
  pointer members are taken without default initialisers); \<open>p->f()\<close> is defined only on
  \<open>Object\<close>; \<open>delete p\<close> is defined on \<open>Nullptr\<close> (nothing happens) and on
  \<open>Object\<close>.
\<close>

datatype ptr = Indeterminate | Nullptr | Object

text \<open>A function pointer or a \<open>void *\<close>: \<open>None\<close> is the null pointer, \<open>Some a\<close> the
  address \<open>a\<close>.\<close>

type_synonym fn_ptr = "nat option"
type_synonym void_ptr = "nat option"

subsection \<open>Addresses and the context configuration\<close>

datatype host = INADDR_ANY | Host string

record sockaddr_in =
  sin_addr :: string
  sin_port :: c_int

text \<open>
  Modelled from the spec: \<open>socket::create_sockaddr\<close> belongs to the socket class, whose
  source is not at hand. The spec has it resolve an (address, port) pair into a descriptor;
  the descriptor is represented by the address and the port it was made from.
\<close>

definition create_sockaddr :: "string \<Rightarrow> c_int \<Rightarrow> sockaddr_in" where
  "create_sockaddr hostname port = \<lparr>sin_addr = hostname, sin_port = port\<rparr>"

text \<open>\<open>rtp_ctx_conf\<close>: \<open>int flags\<close> and the array \<open>ssize_t ctx_values[RCC_LAST]\<close>.\<close>

record rtp_ctx_conf =
  flags :: c_int
  ctx_values :: "ssize_t list"

text \<open>
  The two bounds \<open>RCE_LAST\<close> (flag space) and \<open>RCC_LAST\<close> (indexed table) are enumerators
  of a header that is not part of the sources at hand; they are parameters.
\<close>

record bounds =
  RCE_LAST :: c_int
  RCC_LAST :: c_int

subsection \<open>The stream\<close>

record media_stream =
  fmt_m :: rtp_format_t
  addr_m :: string
  laddr_m :: string
  flags_m :: c_int
  src_port_m :: c_int
  dst_port_m :: c_int
  key_m :: uint32_t
  srtp_m :: ptr
  ctx_config_m :: rtp_ctx_conf
  media_config_m :: void_ptr
  sender_m :: ptr
  receiver_m :: ptr
  rtp_m :: ptr
  addr_out_m :: "sockaddr_in option"

text \<open>
  Calls on collaborators, in the order the stream makes them. \<open>Bind h p\<close> stands for both
  binding calls of \<open>init_connection\<close>: the system call \<open>bind\<close> on the address made from
  \<open>laddr_\<close>, and \<open>socket_.bind(AF_INET, INADDR_ANY, p)\<close>.
\<close>

datatype event =
    Socket_Init
  | Bind host c_int
  | Set_Sockaddr sockaddr_in
  | New_Rtp
  | Zrtp_Init
  | New_Srtp
  | Srtp_Init_Zrtp
  | Set_Srtp
  | New_Sender
  | New_Receiver
  | Sender_Init
  | Receiver_Start
  | Sender_Push_Frame
  | Sender_Push_Frame_Owned
  | Receiver_Pull_Frame
  | Install_Recv_Hook void_ptr nat
  | Install_Dealloc_Hook nat
  | Sender_Destroy
  | Receiver_Stop
  | Delete_Sender
  | Delete_Receiver
  | Delete_Rtp
  | Delete_Srtp

text \<open>
  What the collaborators answer. \<open>sys_bind\<close> is the return value of the system call
  (\<open>-1\<close> on failure). \<open>new_rtp\<close>, \<open>new_srtp\<close>, \<open>new_sender\<close> and \<open>new_receiver\<close>
  tell whether the \<open>new\<close> expression for that class yields an object (\<open>True\<close>) or throws
  \<open>std::bad_alloc\<close> (\<open>False\<close>): a \<open>new\<close> expression never yields the null pointer.
\<close>

record env =
  socket_init :: rtp_error_t
  sys_bind :: "sockaddr_in \<Rightarrow> c_int"
  socket_bind :: "c_int \<Rightarrow> rtp_error_t"
  new_rtp :: bool
  new_srtp :: bool
  new_sender :: bool
  new_receiver :: bool
  zrtp_init :: rtp_error_t
  srtp_init_zrtp :: rtp_error_t
  sender_push_frame :: "8 word list \<Rightarrow> nat \<Rightarrow> c_int \<Rightarrow> rtp_error_t"
  receiver_pull_frame :: "8 word list option"

text \<open>
  How a call ends: it returns a value; or a \<open>new\<close> expression in it throws
  \<open>std::bad_alloc\<close>, which no method of the class catches, and the stream and the calls
  made are what they were at the throw; or it does what the language leaves undefined.
\<close>

datatype 'a run =
    Undefined_Behaviour
  | Throws_Bad_Alloc media_stream "event list"
  | Returns 'a

subsection \<open>Constructors\<close>

text \<open>
  \<open>media_stream(addr, src_port, dst_port, fmt, flags)\<close>. The initialiser list sets
  \<open>srtp_\<close> and \<open>media_config_\<close> to \<open>nullptr\<close> and value-initialises \<open>ctx_config_\<close>;
  \<open>sender_\<close>, \<open>receiver_\<close>, \<open>rtp_\<close> and \<open>addr_out_\<close> are not assigned. The first
  argument \<open>k\<close> is the value \<open>kvz_rtp::random::generate_32()\<close> returns.
\<close>

definition media_stream1 ::
  "bounds \<Rightarrow> uint32_t \<Rightarrow> string \<Rightarrow> c_int \<Rightarrow> c_int \<Rightarrow> rtp_format_t \<Rightarrow> c_int \<Rightarrow> media_stream" where
  "media_stream1 B k addr src_port dst_port fmt fl =
     \<lparr>fmt_m = fmt,
      addr_m = addr,
      laddr_m = [],
      flags_m = fl,
      src_port_m = src_port,
      dst_port_m = dst_port,
      key_m = k,
      srtp_m = Nullptr,
      ctx_config_m = \<lparr>flags = fl, ctx_values = replicate (nat (sint (RCC_LAST B))) 0\<rparr>,
      media_config_m = None,
      sender_m = Indeterminate,
      receiver_m = Indeterminate,
      rtp_m = Indeterminate,
      addr_out_m = None\<rparr>"

text \<open>The overload with a local address delegates, then assigns \<open>laddr_\<close>.\<close>

definition media_stream2 ::
  "bounds \<Rightarrow> uint32_t \<Rightarrow> string \<Rightarrow> string \<Rightarrow> c_int \<Rightarrow> c_int \<Rightarrow> rtp_format_t \<Rightarrow> c_int
    \<Rightarrow> media_stream" where
  "media_stream2 B k remote_addr local_addr src_port dst_port fmt fl =
     (media_stream1 B k remote_addr src_port dst_port fmt fl)\<lparr>laddr_m := local_addr\<rparr>"

subsection \<open>Configuration\<close>

definition configure_ctx_value ::
  "bounds \<Rightarrow> media_stream \<Rightarrow> c_int \<Rightarrow> ssize_t \<Rightarrow> rtp_error_t \<times> media_stream" where
  "configure_ctx_value B s flag val =
     (if flag <s 0 \<or> RCC_LAST B \<le>s flag \<or> val <s 0 then (RTP_INVALID_VALUE, s)
      else (RTP_OK,
            s\<lparr>ctx_config_m :=
                (ctx_config_m s)\<lparr>ctx_values :=
                    (ctx_values (ctx_config_m s))[nat (sint flag) := val]\<rparr>\<rparr>))"

definition configure_ctx ::
  "bounds \<Rightarrow> media_stream \<Rightarrow> c_int \<Rightarrow> rtp_error_t \<times> media_stream" where
  "configure_ctx B s flag =
     (if flag <s 0 \<or> RCE_LAST B \<le>s flag then (RTP_INVALID_VALUE, s)
      else (RTP_OK,
            s\<lparr>ctx_config_m := (ctx_config_m s)\<lparr>flags := flags (ctx_config_m s) OR flag\<rparr>\<rparr>))"

definition set_media_config :: "media_stream \<Rightarrow> void_ptr \<Rightarrow> media_stream" where
  "set_media_config s config = s\<lparr>media_config_m := config\<rparr>"

definition get_media_config :: "media_stream \<Rightarrow> void_ptr" where
  "get_media_config s = media_config_m s"

definition get_key :: "media_stream \<Rightarrow> uint32_t" where
  "get_key s = key_m s"

subsection \<open>Connection establishment\<close>

text \<open>
  \<open>init_connection\<close> (the build for Linux): create the socket; bind it, to
  \<open>(laddr_, src_port_)\<close> when \<open>laddr_\<close> is not the empty string and to
  \<open>(INADDR_ANY, src_port_)\<close> otherwise; store and set the destination address. The
  result is the error code, the stream and the calls made.
\<close>

definition init_connection ::
  "env \<Rightarrow> media_stream \<Rightarrow> rtp_error_t \<times> media_stream \<times> event list" where
  "init_connection E s =
     (if socket_init E \<noteq> RTP_OK then (socket_init E, s, [Socket_Init])
      else
        let bound =
              (if laddr_m s \<noteq> [] then
                 (let bind_addr = create_sockaddr (laddr_m s) (src_port_m s) in
                  (if sys_bind E bind_addr = - 1 then RTP_BIND_ERROR else RTP_OK,
                   [Bind (Host (sin_addr bind_addr)) (sin_port bind_addr)]))
               else (socket_bind E (src_port_m s), [Bind INADDR_ANY (src_port_m s)]))
        in
          if fst bound \<noteq> RTP_OK then (fst bound, s, Socket_Init # snd bound)
          else
            let out = create_sockaddr (addr_m s) (dst_port_m s) in
            (RTP_OK, s\<lparr>addr_out_m := Some out\<rparr>, Socket_Init # snd bound @ [Set_Sockaddr out]))"

subsection \<open>Bootstrap\<close>

text \<open>
  Plain \<open>init()\<close>. The three \<open>new\<close> expressions are evaluated in order; the first that
  throws ends the call, with the members assigned so far.
\<close>

definition init ::
  "env \<Rightarrow> media_stream \<Rightarrow> (rtp_error_t \<times> media_stream \<times> event list) run" where
  "init E s =
     (case init_connection E s of
        (ret, s1, tr) \<Rightarrow>
          if ret \<noteq> RTP_OK then Returns (RTP_GENERIC_ERROR, s1, tr)
          else if \<not> new_rtp E then Throws_Bad_Alloc s1 tr
          else
            let s2 = s1\<lparr>rtp_m := Object\<rparr>; tr2 = tr @ [New_Rtp] in
            if \<not> new_sender E then Throws_Bad_Alloc s2 tr2
            else
              let s3 = s2\<lparr>sender_m := Object\<rparr>; tr3 = tr2 @ [New_Sender] in
              if \<not> new_receiver E then Throws_Bad_Alloc s3 tr3
              else
                Returns
                  (RTP_OK,
                   s3\<lparr>receiver_m := Object\<rparr>,
                   tr3 @ [New_Receiver, Sender_Init, Receiver_Start]))"

text \<open>
  \<open>init(kvz_rtp::zrtp *zrtp)\<close>, compiled under \<open>__RTP_CRYPTO__\<close>. The argument is
  dereferenced by \<open>zrtp->init(...)\<close>. The two comparisons of a \<open>new\<close> expression with
  \<open>nullptr\<close> are kept as the source has them; the pointer compared is an object, so
  neither \<open>return RTP_MEMORY_ERROR\<close> is ever taken.
\<close>

definition init_zrtp ::
  "env \<Rightarrow> media_stream \<Rightarrow> ptr \<Rightarrow> (rtp_error_t \<times> media_stream \<times> event list) run" where
  "init_zrtp E s zrtp =
     (case init_connection E s of
        (ret, s1, tr) \<Rightarrow>
          if ret \<noteq> RTP_OK then Returns (RTP_GENERIC_ERROR, s1, tr)
          else if \<not> new_rtp E then Throws_Bad_Alloc s1 tr
          else
            let s2 = s1\<lparr>rtp_m := Object\<rparr>; tr2 = tr @ [New_Rtp] in
            if rtp_m s2 = Nullptr then Returns (RTP_MEMORY_ERROR, s2, tr2)
            else if zrtp \<noteq> Object then Undefined_Behaviour
            else if zrtp_init E \<noteq> RTP_OK then Returns (zrtp_init E, s2, tr2 @ [Zrtp_Init])
            else if \<not> new_srtp E then Throws_Bad_Alloc s2 (tr2 @ [Zrtp_Init])
            else
              let s3 = s2\<lparr>srtp_m := Object\<rparr>; tr3 = tr2 @ [Zrtp_Init, New_Srtp] in
              if srtp_m s3 = Nullptr then Returns (RTP_MEMORY_ERROR, s3, tr3)
              else if srtp_init_zrtp E \<noteq> RTP_OK
              then Returns (srtp_init_zrtp E, s3, tr3 @ [Srtp_Init_Zrtp])
              else
                let tr4 = tr3 @ [Srtp_Init_Zrtp, Set_Srtp] in
                if \<not> new_sender E then Throws_Bad_Alloc s3 tr4
                else
                  let s4 = s3\<lparr>sender_m := Object\<rparr>; tr5 = tr4 @ [New_Sender] in
                  if \<not> new_receiver E then Throws_Bad_Alloc s4 tr5
                  else
                    Returns
                      (RTP_OK,
                       s4\<lparr>receiver_m := Object\<rparr>,
                       tr5 @ [New_Receiver, Sender_Init, Receiver_Start]))"

subsection \<open>Frame input and output, hooks\<close>

definition push_frame ::
  "env \<Rightarrow> media_stream \<Rightarrow> 8 word list \<Rightarrow> nat \<Rightarrow> c_int \<Rightarrow> (rtp_error_t \<times> event list) run" where
  "push_frame E s data data_len fl =
     (if sender_m s = Object
      then Returns (sender_push_frame E data data_len fl, [Sender_Push_Frame])
      else Undefined_Behaviour)"

text \<open>The overload taking a \<open>std::unique_ptr\<close>.\<close>

definition push_frame_owned ::
  "env \<Rightarrow> media_stream \<Rightarrow> 8 word list \<Rightarrow> nat \<Rightarrow> c_int \<Rightarrow> (rtp_error_t \<times> event list) run" where
  "push_frame_owned E s data data_len fl =
     (if sender_m s = Object
      then Returns (sender_push_frame E data data_len fl, [Sender_Push_Frame_Owned])
      else Undefined_Behaviour)"

text \<open>\<open>pull_frame\<close> returns a frame pointer: \<open>None\<close> is \<open>nullptr\<close>.\<close>

definition pull_frame ::
  "env \<Rightarrow> media_stream \<Rightarrow> (8 word list option \<times> event list) run" where
  "pull_frame E s =
     (if receiver_m s = Object
      then Returns (receiver_pull_frame E, [Receiver_Pull_Frame])
      else Undefined_Behaviour)"

definition install_receive_hook ::
  "media_stream \<Rightarrow> void_ptr \<Rightarrow> fn_ptr \<Rightarrow> (rtp_error_t \<times> event list) run" where
  "install_receive_hook s arg hook =
     (case hook of
        None \<Rightarrow> Returns (RTP_INVALID_VALUE, [])
      | Some h \<Rightarrow>
          if receiver_m s = Object then Returns (RTP_OK, [Install_Recv_Hook arg h])
          else Undefined_Behaviour)"

definition install_deallocation_hook ::
  "media_stream \<Rightarrow> fn_ptr \<Rightarrow> (rtp_error_t \<times> event list) run" where
  "install_deallocation_hook s hook =
     (case hook of
        None \<Rightarrow> Returns (RTP_INVALID_VALUE, [])
      | Some h \<Rightarrow>
          if sender_m s = Object then Returns (RTP_OK, [Install_Dealloc_Hook h])
          else Undefined_Behaviour)"

subsection \<open>Destructor\<close>

text \<open>
  \<open>~media_stream\<close>: \<open>sender_->destroy()\<close>, \<open>receiver_->stop()\<close>, then four \<open>delete\<close>
  expressions, none of them guarded.
\<close>

definition delete :: "ptr \<Rightarrow> event \<Rightarrow> event list run" where
  "delete p e =
     (case p of
        Indeterminate \<Rightarrow> Undefined_Behaviour
      | Nullptr \<Rightarrow> Returns []
      | Object \<Rightarrow> Returns [e])"

fun and_then :: "event list run \<Rightarrow> event list run \<Rightarrow> event list run" where
  "and_then Undefined_Behaviour _ = Undefined_Behaviour"
| "and_then (Throws_Bad_Alloc s tr) _ = Throws_Bad_Alloc s tr"
| "and_then (Returns _) Undefined_Behaviour = Undefined_Behaviour"
| "and_then (Returns _) (Throws_Bad_Alloc s tr) = Throws_Bad_Alloc s tr"
| "and_then (Returns xs) (Returns ys) = Returns (xs @ ys)"

definition member_call :: "ptr \<Rightarrow> event \<Rightarrow> event list run" where
  "member_call p e = (if p = Object then Returns [e] else Undefined_Behaviour)"

definition destructor :: "media_stream \<Rightarrow> event list run" where
  "destructor s =
     and_then (member_call (sender_m s) Sender_Destroy)
       (and_then (member_call (receiver_m s) Receiver_Stop)
          (and_then (delete (sender_m s) Delete_Sender)
             (and_then (delete (receiver_m s) Delete_Receiver)
                (and_then (delete (rtp_m s) Delete_Rtp)
                   (delete (srtp_m s) Delete_Srtp)))))"

subsection \<open>Sequences of calls\<close>

datatype call =
    Call_Init
  | Call_Init_Zrtp ptr
  | Call_Push_Frame "8 word list" nat c_int
  | Call_Push_Frame_Owned "8 word list" nat c_int
  | Call_Pull_Frame
  | Call_Install_Receive_Hook void_ptr fn_ptr
  | Call_Install_Deallocation_Hook fn_ptr
  | Call_Set_Media_Config void_ptr
  | Call_Get_Media_Config
  | Call_Configure_Ctx_Value c_int ssize_t
  | Call_Configure_Ctx c_int
  | Call_Get_Key

text \<open>
  The stream after one call, in the environment the call meets. A call that throws
  \<open>std::bad_alloc\<close> leaves the stream as it was at the throw, and the caller that catches
  the exception goes on with it.
\<close>

definition keep :: "media_stream \<Rightarrow> 'a run \<Rightarrow> media_stream run" where
  "keep s r =
     (case r of
        Undefined_Behaviour \<Rightarrow> Undefined_Behaviour
      | Throws_Bad_Alloc s' _ \<Rightarrow> Returns s'
      | Returns _ \<Rightarrow> Returns s)"

definition after_bootstrap ::
  "(rtp_error_t \<times> media_stream \<times> event list) run \<Rightarrow> media_stream run" where
  "after_bootstrap r =
     (case r of
        Undefined_Behaviour \<Rightarrow> Undefined_Behaviour
      | Throws_Bad_Alloc s' _ \<Rightarrow> Returns s'
      | Returns x \<Rightarrow> Returns (fst (snd x)))"

fun step :: "bounds \<Rightarrow> env \<Rightarrow> media_stream \<Rightarrow> call \<Rightarrow> media_stream run" where
  "step B E s Call_Init = after_bootstrap (init E s)"
| "step B E s (Call_Init_Zrtp z) = after_bootstrap (init_zrtp E s z)"
| "step B E s (Call_Push_Frame d n f) = keep s (push_frame E s d n f)"
| "step B E s (Call_Push_Frame_Owned d n f) = keep s (push_frame_owned E s d n f)"
| "step B E s Call_Pull_Frame = keep s (pull_frame E s)"
| "step B E s (Call_Install_Receive_Hook a h) = keep s (install_receive_hook s a h)"
| "step B E s (Call_Install_Deallocation_Hook h) = keep s (install_deallocation_hook s h)"
| "step B E s (Call_Set_Media_Config c) = Returns (set_media_config s c)"
| "step B E s Call_Get_Media_Config = Returns s"
| "step B E s (Call_Configure_Ctx_Value k v) = Returns (snd (configure_ctx_value B s k v))"
| "step B E s (Call_Configure_Ctx f) = Returns (snd (configure_ctx B s f))"
| "step B E s Call_Get_Key = Returns s"

fun run_calls :: "bounds \<Rightarrow> media_stream \<Rightarrow> (env \<times> call) list \<Rightarrow> media_stream run" where
  "run_calls B s [] = Returns s"
| "run_calls B s ((E, c) # cs) =
     (case step B E s c of
        Undefined_Behaviour \<Rightarrow> Undefined_Behaviour
      | Throws_Bad_Alloc s' tr \<Rightarrow> Throws_Bad_Alloc s' tr
      | Returns s' \<Rightarrow> run_calls B s' cs)"

subsection \<open>Vocabulary of the properties\<close>

text \<open>The calls that construct or start the sender and the receiver.\<close>

definition sender_receiver_events :: "event set" where
  "sender_receiver_events = {New_Sender, New_Receiver, Sender_Init, Receiver_Start}"

text \<open>The endpoints the socket was asked to bind to, in order.\<close>

fun binds :: "event list \<Rightarrow> (host \<times> c_int) list" where
  "binds [] = []"
| "binds (Bind h p # es) = (h, p) # binds es"
| "binds (_ # es) = binds es"

subsection \<open>Concrete streams and environments\<close>

definition bounds0 :: bounds where
  "bounds0 = \<lparr>RCE_LAST = 1024, RCC_LAST = 4\<rparr>"

definition env_ok :: env where
  "env_ok =
     \<lparr>socket_init = RTP_OK,
      sys_bind = (\<lambda>_. 0),
      socket_bind = (\<lambda>_. RTP_OK),
      new_rtp = True,
      new_srtp = True,
      new_sender = True,
      new_receiver = True,
      zrtp_init = RTP_OK,
      srtp_init_zrtp = RTP_OK,
      sender_push_frame = (\<lambda>_ _ _. RTP_OK),
      receiver_pull_frame = None\<rparr>"

definition env_socket_fails :: env where
  "env_socket_fails = env_ok\<lparr>socket_init := RTP_OTHER_ERROR (- 2)\<rparr>"

definition env_bind_fails :: env where
  "env_bind_fails = env_ok\<lparr>sys_bind := (\<lambda>_. - 1), socket_bind := (\<lambda>_. RTP_BIND_ERROR)\<rparr>"

definition env_wildcard_bind_fails :: env where
  "env_wildcard_bind_fails = env_ok\<lparr>socket_bind := (\<lambda>_. RTP_OTHER_ERROR (- 2))\<rparr>"

definition env_zrtp_fails :: env where
  "env_zrtp_fails = env_ok\<lparr>zrtp_init := RTP_OTHER_ERROR (- 12)\<rparr>"

definition stream0 :: media_stream where
  "stream0 = media_stream1 bounds0 77 ''203.0.113.5'' 5004 5004 0 0"

definition stream_local :: media_stream where
  "stream_local = media_stream2 bounds0 77 ''203.0.113.5'' ''192.0.2.1'' 5004 5004 0 0"

definition stream0_bound :: media_stream where
  "stream0_bound = stream0\<lparr>addr_out_m := Some (create_sockaddr ''203.0.113.5'' 5004)\<rparr>"

definition stream0_plain :: media_stream where
  "stream0_plain = stream0_bound\<lparr>rtp_m := Object, sender_m := Object, receiver_m := Object\<rparr>"

definition stream0_secure :: media_stream where
  "stream0_secure =
     stream0_bound\<lparr>rtp_m := Object, srtp_m := Object, sender_m := Object, receiver_m := Object\<rparr>"

definition calls0 :: "(env \<times> call) list" where
  "calls0 =
     [(env_ok, Call_Configure_Ctx 4),
      (env_ok, Call_Init),
      (env_ok, Call_Push_Frame [1, 2, 3] 3 0),
      (env_ok, Call_Pull_Frame),
      (env_ok, Call_Install_Receive_Hook None (Some 1)),
      (env_ok, Call_Configure_Ctx_Value 2 9),
      (env_ok, Call_Set_Media_Config (Some 5)),
      (env_ok, Call_Get_Key)]"

section \<open>Properties\<close>

lemmas fixture_defs = bounds0_def env_ok_def env_socket_fails_def env_bind_fails_def
  env_wildcard_bind_fails_def env_zrtp_fails_def stream0_def stream_local_def stream0_bound_def stream0_plain_def
  stream0_secure_def media_stream1_def media_stream2_def

subsection \<open>Connection establishment touches nothing but the destination address\<close>

lemma init_connection_trace:
  "init_connection E s = (r, s1, tr) \<Longrightarrow>
     set tr \<inter> insert Set_Srtp sender_receiver_events = {} \<and>
     sender_m s1 = sender_m s \<and> receiver_m s1 = receiver_m s \<and> srtp_m s1 = srtp_m s \<and>
     rtp_m s1 = rtp_m s \<and> key_m s1 = key_m s"
  by (auto simp: init_connection_def Let_def sender_receiver_events_def split: if_splits)

lemma init_connection_socket_fails:
  "socket_init E \<noteq> RTP_OK \<Longrightarrow> init_connection E s = (socket_init E, s, [Socket_Init])"
  by (simp add: init_connection_def)

lemma init_connection_local_bind_fails:
  "socket_init E = RTP_OK \<Longrightarrow> laddr_m s \<noteq> [] \<Longrightarrow>
   sys_bind E (create_sockaddr (laddr_m s) (src_port_m s)) = - 1 \<Longrightarrow>
     init_connection E s =
       (RTP_BIND_ERROR, s, [Socket_Init, Bind (Host (laddr_m s)) (src_port_m s)])"
  by (simp add: init_connection_def Let_def) (simp add: create_sockaddr_def)

lemma init_connection_wildcard_bind_fails:
  "socket_init E = RTP_OK \<Longrightarrow> laddr_m s = [] \<Longrightarrow> socket_bind E (src_port_m s) \<noteq> RTP_OK \<Longrightarrow>
     init_connection E s =
       (socket_bind E (src_port_m s), s, [Socket_Init, Bind INADDR_ANY (src_port_m s)])"
  by (simp add: init_connection_def Let_def)

lemma init_connection_succeeds:
  "socket_init E = RTP_OK \<Longrightarrow>
   (laddr_m s \<noteq> [] \<longrightarrow> sys_bind E (create_sockaddr (laddr_m s) (src_port_m s)) \<noteq> - 1) \<Longrightarrow>
   (laddr_m s = [] \<longrightarrow> socket_bind E (src_port_m s) = RTP_OK) \<Longrightarrow>
     init_connection E s =
       (RTP_OK,
        s\<lparr>addr_out_m := Some (create_sockaddr (addr_m s) (dst_port_m s))\<rparr>,
        [Socket_Init,
         Bind (if laddr_m s \<noteq> [] then Host (laddr_m s) else INADDR_ANY) (src_port_m s),
         Set_Sockaddr (create_sockaddr (addr_m s) (dst_port_m s))])"
  by (cases "laddr_m s = []") (simp_all add: init_connection_def Let_def create_sockaddr_def)

lemma init_connection_failed:
  assumes "fst (init_connection E s) \<noteq> RTP_OK"
  shows "fst (snd (init_connection E s)) = s"
    and "\<forall>e \<in> set (snd (snd (init_connection E s))). e = Socket_Init \<or> (\<exists>h p. e = Bind h p)"
proof -
  have "fst (snd (init_connection E s)) = s \<and>
    (\<forall>e \<in> set (snd (snd (init_connection E s))). e = Socket_Init \<or> (\<exists>h p. e = Bind h p))"
  proof (cases "socket_init E = RTP_OK")
    case False
    then show ?thesis by (simp add: init_connection_def)
  next
    case sock: True
    show ?thesis
    proof (cases "laddr_m s = []")
      case True
      with sock assms show ?thesis
        by (cases "socket_bind E (src_port_m s) = RTP_OK") (simp_all add: init_connection_def Let_def)
    next
      case False
      with sock assms show ?thesis
        by (cases "sys_bind E (create_sockaddr (laddr_m s) (src_port_m s)) = - 1")
           (simp_all add: init_connection_def Let_def)
    qed
  qed
  then show "fst (snd (init_connection E s)) = s"
    and "\<forall>e \<in> set (snd (snd (init_connection E s))). e = Socket_Init \<or> (\<exists>h p. e = Bind h p)"
    by blast+
qed

lemma bootstrap_after_failed_connection:
  assumes "fst (init_connection E s) \<noteq> RTP_OK"
  shows "init E s = Returns (RTP_GENERIC_ERROR, s, snd (snd (init_connection E s)))"
    and "init_zrtp E s z = Returns (RTP_GENERIC_ERROR, s, snd (snd (init_connection E s)))"
  using assms init_connection_failed(1) [OF assms]
  by (cases "init_connection E s"; simp add: init_def init_zrtp_def)+

lemma bootstrap_when_connection_returns:
  assumes "init_connection E s = (r, s, tr)" and "r \<noteq> RTP_OK"
  shows "init E s = Returns (RTP_GENERIC_ERROR, s, tr)"
    and "init_zrtp E s z = Returns (RTP_GENERIC_ERROR, s, tr)"
  using assms by (simp_all add: init_def init_zrtp_def)

lemma binds_init_connection:
  "socket_init E = RTP_OK \<Longrightarrow>
     binds (snd (snd (init_connection E s))) =
       [(if laddr_m s \<noteq> [] then Host (laddr_m s) else INADDR_ANY, src_port_m s)]"
  by (simp add: init_connection_def Let_def create_sockaddr_def)

lemma env_ok_answers:
  "socket_init env_ok = RTP_OK" "socket_bind env_ok p = RTP_OK" "sys_bind env_ok a = 0"
  "new_rtp env_ok" "new_srtp env_ok" "new_sender env_ok" "new_receiver env_ok"
  "zrtp_init env_ok = RTP_OK" "srtp_init_zrtp env_ok = RTP_OK"
  by (simp_all add: env_ok_def)

lemma env_zrtp_fails_answers:
  "socket_init env_zrtp_fails = RTP_OK" "socket_bind env_zrtp_fails p = RTP_OK"
  "new_rtp env_zrtp_fails" "zrtp_init env_zrtp_fails = RTP_OTHER_ERROR (- 12)"
  by (simp_all add: env_zrtp_fails_def env_ok_def)

lemma env_bind_fails_answers:
  "socket_init env_bind_fails = RTP_OK" "socket_bind env_bind_fails p = RTP_BIND_ERROR"
  "sys_bind env_bind_fails a = - 1"
  by (simp_all add: env_bind_fails_def env_ok_def)

lemma env_wildcard_bind_fails_answers:
  "socket_init env_wildcard_bind_fails = RTP_OK"
  "socket_bind env_wildcard_bind_fails p = RTP_OTHER_ERROR (- 2)"
  by (simp_all add: env_wildcard_bind_fails_def env_ok_def)

lemma env_socket_fails_answers:
  "socket_init env_socket_fails = RTP_OTHER_ERROR (- 2)"
  by (simp add: env_socket_fails_def env_ok_def)

lemma stream0_members:
  "laddr_m stream0 = []" "src_port_m stream0 = 5004" "addr_m stream0 = ''203.0.113.5''"
  "dst_port_m stream0 = 5004" "sender_m stream0 = Indeterminate"
  "receiver_m stream0 = Indeterminate" "rtp_m stream0 = Indeterminate" "srtp_m stream0 = Nullptr"
  by (simp_all add: stream0_def media_stream1_def)

lemma stream_local_members:
  "laddr_m stream_local = ''192.0.2.1''" "src_port_m stream_local = 5004"
  "sender_m stream_local = Indeterminate" "receiver_m stream_local = Indeterminate"
  "rtp_m stream_local = Indeterminate"
  by (simp_all add: stream_local_def media_stream2_def media_stream1_def)

lemma init_connection_env_ok_stream0:
  "init_connection env_ok stream0 =
     (RTP_OK, stream0_bound,
      [Socket_Init, Bind INADDR_ANY 5004, Set_Sockaddr (create_sockaddr ''203.0.113.5'' 5004)])"
  by (simp add: init_connection_succeeds env_ok_answers stream0_members stream0_bound_def)

lemma init_connection_zrtp_fails_stream0:
  "init_connection env_zrtp_fails stream0 =
     (RTP_OK, stream0_bound,
      [Socket_Init, Bind INADDR_ANY 5004, Set_Sockaddr (create_sockaddr ''203.0.113.5'' 5004)])"
  by (simp add: init_connection_succeeds env_zrtp_fails_answers stream0_members stream0_bound_def)

lemma init_connection_bind_fails_local:
  "init_connection env_bind_fails stream_local =
     (RTP_BIND_ERROR, stream_local, [Socket_Init, Bind (Host ''192.0.2.1'') 5004])"
  by (simp add: init_connection_local_bind_fails env_bind_fails_answers stream_local_members)

subsection \<open>Secure bootstrap\<close>

text \<open>
  C1. Secure bootstrap, \<open>init(zrtp)\<close>. When the connection is established, the RTP context
  is allocated and the handshake \<open>zrtp->init\<close> answers an error, the call returns, its
  result is the handshake's error, the handshake is the last call made, and neither the
  SRTP context is set on the socket nor the sender or receiver constructed or started
  (their pointers are what they were). Whenever the call returns an error, sender and
  receiver are untouched. Whenever it returns \<open>RTP_OK\<close>, the calls made end with
  \<open>set_srtp\<close>, \<open>new sender\<close>, \<open>new receiver\<close>, \<open>sender->init\<close>, \<open>receiver->start\<close> in
  this order, and no call on the sender or receiver comes before \<open>set_srtp\<close>.
\<close>

theorem secure_bootstrap_ordering:
  "(fst (init_connection E s) = RTP_OK \<and> new_rtp E \<and> zrtp_init E \<noteq> RTP_OK \<longrightarrow>
      (\<exists>s' tr. init_zrtp E s Object = Returns (zrtp_init E, s', tr) \<and>
         last tr = Zrtp_Init \<and>
         sender_m s' = sender_m s \<and> receiver_m s' = receiver_m s \<and> srtp_m s' = srtp_m s \<and>
         set tr \<inter> insert Set_Srtp sender_receiver_events = {})) \<and>
   (init_zrtp E s z = Returns (r, s', tr) \<and> r \<noteq> RTP_OK \<longrightarrow>
      sender_m s' = sender_m s \<and> receiver_m s' = receiver_m s \<and>
      set tr \<inter> sender_receiver_events = {}) \<and>
   (init_zrtp E s z = Returns (RTP_OK, s', tr) \<longrightarrow>
      (\<exists>pre. tr = pre @ [Set_Srtp, New_Sender, New_Receiver, Sender_Init, Receiver_Start] \<and>
         set pre \<inter> sender_receiver_events = {}) \<and>
      srtp_m s' = Object \<and> sender_m s' = Object \<and> receiver_m s' = Object)"
proof (intro conjI impI)
  obtain r0 s1 tr1 where ic: "init_connection E s = (r0, s1, tr1)"
    by (cases "init_connection E s") auto
  note tr = init_connection_trace [OF ic]
  {
    assume "fst (init_connection E s) = RTP_OK \<and> new_rtp E \<and> zrtp_init E \<noteq> RTP_OK"
    then show "\<exists>s' tr. init_zrtp E s Object = Returns (zrtp_init E, s', tr) \<and>
         last tr = Zrtp_Init \<and>
         sender_m s' = sender_m s \<and> receiver_m s' = receiver_m s \<and> srtp_m s' = srtp_m s \<and>
         set tr \<inter> insert Set_Srtp sender_receiver_events = {}"
      using ic tr by (auto simp: init_zrtp_def Let_def sender_receiver_events_def)
  }
  {
    assume "init_zrtp E s z = Returns (r, s', tr) \<and> r \<noteq> RTP_OK"
    then show "sender_m s' = sender_m s" "receiver_m s' = receiver_m s"
      "set tr \<inter> sender_receiver_events = {}"
      using ic tr
      by (auto simp: init_zrtp_def Let_def sender_receiver_events_def split: if_splits)
  }
  {
    assume "init_zrtp E s z = Returns (RTP_OK, s', tr)"
    then show "\<exists>pre. tr = pre @ [Set_Srtp, New_Sender, New_Receiver, Sender_Init, Receiver_Start] \<and>
         set pre \<inter> sender_receiver_events = {}"
      "srtp_m s' = Object" "sender_m s' = Object" "receiver_m s' = Object"
      using ic tr
      by (auto simp: init_zrtp_def Let_def sender_receiver_events_def split: if_splits)
  }
qed

theorem secure_bootstrap_ordering_witness:
  "(\<exists>s' tr. init_zrtp env_zrtp_fails stream0 Object = Returns (RTP_OTHER_ERROR (- 12), s', tr) \<and>
      last tr = Zrtp_Init \<and> sender_m s' = Indeterminate \<and> receiver_m s' = Indeterminate \<and>
      srtp_m s' = Nullptr \<and> set tr \<inter> insert Set_Srtp sender_receiver_events = {}) \<and>
   init_zrtp env_ok stream0 Object =
     Returns (RTP_OK, stream0_secure,
       [Socket_Init, Bind INADDR_ANY 5004, Set_Sockaddr (create_sockaddr ''203.0.113.5'' 5004),
        New_Rtp, Zrtp_Init, New_Srtp, Srtp_Init_Zrtp,
        Set_Srtp, New_Sender, New_Receiver, Sender_Init, Receiver_Start]) \<and>
   (\<exists>pre. [Socket_Init, Bind INADDR_ANY 5004, Set_Sockaddr (create_sockaddr ''203.0.113.5'' 5004),
           New_Rtp, Zrtp_Init, New_Srtp, Srtp_Init_Zrtp,
           Set_Srtp, New_Sender, New_Receiver, Sender_Init, Receiver_Start] =
          pre @ [Set_Srtp, New_Sender, New_Receiver, Sender_Init, Receiver_Start] \<and>
          set pre \<inter> sender_receiver_events = {}) \<and>
   sender_m stream0_secure = Object \<and> receiver_m stream0_secure = Object"
proof -
  have h: "fst (init_connection env_zrtp_fails stream0) = RTP_OK \<and> new_rtp env_zrtp_fails \<and>
      zrtp_init env_zrtp_fails \<noteq> RTP_OK"
    by (simp add: init_connection_zrtp_fails_stream0 env_zrtp_fails_answers)
  have ok: "init_zrtp env_ok stream0 Object =
     Returns (RTP_OK, stream0_secure,
       [Socket_Init, Bind INADDR_ANY 5004, Set_Sockaddr (create_sockaddr ''203.0.113.5'' 5004),
        New_Rtp, Zrtp_Init, New_Srtp, Srtp_Init_Zrtp,
        Set_Srtp, New_Sender, New_Receiver, Sender_Init, Receiver_Start])"
    by (simp add: init_zrtp_def init_connection_env_ok_stream0 Let_def env_ok_answers
        stream0_secure_def)
  from secure_bootstrap_ordering
         [where E = env_zrtp_fails and s = stream0, THEN conjunct1, rule_format, OF h]
  have 1: "\<exists>s' tr. init_zrtp env_zrtp_fails stream0 Object =
        Returns (RTP_OTHER_ERROR (- 12), s', tr) \<and>
      last tr = Zrtp_Init \<and> sender_m s' = Indeterminate \<and> receiver_m s' = Indeterminate \<and>
      srtp_m s' = Nullptr \<and> set tr \<inter> insert Set_Srtp sender_receiver_events = {}"
    by (simp add: env_zrtp_fails_answers stream0_members)
  from secure_bootstrap_ordering
         [where E = env_ok and s = stream0 and z = Object, THEN conjunct2, THEN conjunct2,
          rule_format, OF ok]
  have 2: "(\<exists>pre. [Socket_Init, Bind INADDR_ANY 5004,
            Set_Sockaddr (create_sockaddr ''203.0.113.5'' 5004),
            New_Rtp, Zrtp_Init, New_Srtp, Srtp_Init_Zrtp,
            Set_Srtp, New_Sender, New_Receiver, Sender_Init, Receiver_Start] =
          pre @ [Set_Srtp, New_Sender, New_Receiver, Sender_Init, Receiver_Start] \<and>
          set pre \<inter> sender_receiver_events = {}) \<and>
      srtp_m stream0_secure = Object \<and> sender_m stream0_secure = Object \<and>
      receiver_m stream0_secure = Object" .
  from 1 ok 2 show ?thesis by blast
qed

subsection \<open>Plain bootstrap\<close>

text \<open>
  A bind that fails: the stream has the local address \<open>192.0.2.1\<close> and the system call
  returns \<open>-1\<close>. \<open>init_connection\<close> returns \<open>RTP_BIND_ERROR\<close>; \<open>init()\<close> returns
  \<open>RTP_GENERIC_ERROR\<close>, which is neither success, nor the error of the failing step, nor
  the allocation error.
\<close>

theorem plain_bootstrap_counterexample:
  "sys_bind env_bind_fails (create_sockaddr ''192.0.2.1'' 5004) = - 1 \<and>
   fst (init_connection env_bind_fails stream_local) = RTP_BIND_ERROR \<and>
   init env_bind_fails stream_local =
     Returns (RTP_GENERIC_ERROR, stream_local, [Socket_Init, Bind (Host ''192.0.2.1'') 5004]) \<and>
   RTP_GENERIC_ERROR \<noteq> RTP_OK \<and>
   RTP_GENERIC_ERROR \<noteq> fst (init_connection env_bind_fails stream_local) \<and>
   RTP_GENERIC_ERROR \<noteq> RTP_MEMORY_ERROR"
  by (simp add: init_def init_connection_bind_fails_local env_bind_fails_answers)

text \<open>
  C4 (as amended). Plain bootstrap, \<open>init()\<close>. When a step of connection establishment
  fails (the socket cannot be created, or the bind to the local address fails, or the bind
  to the wildcard address fails), the call returns \<open>RTP_GENERIC_ERROR\<close>, whatever error the
  failing step produced, and no partial session becomes active: the pointers to the RTP
  context, the sender and the receiver are what they were, and none of the three is
  constructed or started. When no step fails and the three allocations succeed, the call
  returns \<open>RTP_OK\<close>, after constructing the RTP context, the sender and the receiver and
  starting sender and receiver. So, when the allocations succeed, the call returns, and
  what it returns is \<open>RTP_OK\<close> or \<open>RTP_GENERIC_ERROR\<close>. What the call does when an
  allocation fails is not part of the statement.
\<close>

theorem plain_bootstrap_result:
  "(socket_init E \<noteq> RTP_OK \<or>
    (laddr_m s \<noteq> [] \<and> sys_bind E (create_sockaddr (laddr_m s) (src_port_m s)) = - 1) \<or>
    (laddr_m s = [] \<and> socket_bind E (src_port_m s) \<noteq> RTP_OK) \<longrightarrow>
      (\<exists>s' tr. init E s = Returns (RTP_GENERIC_ERROR, s', tr) \<and>
         rtp_m s' = rtp_m s \<and> sender_m s' = sender_m s \<and> receiver_m s' = receiver_m s \<and>
         set tr \<inter> insert New_Rtp sender_receiver_events = {})) \<and>
   (socket_init E = RTP_OK \<and>
    (laddr_m s \<noteq> [] \<longrightarrow> sys_bind E (create_sockaddr (laddr_m s) (src_port_m s)) \<noteq> - 1) \<and>
    (laddr_m s = [] \<longrightarrow> socket_bind E (src_port_m s) = RTP_OK) \<and>
    new_rtp E \<and> new_sender E \<and> new_receiver E \<longrightarrow>
      (\<exists>s' pre. init E s =
           Returns (RTP_OK, s',
             pre @ [New_Rtp, New_Sender, New_Receiver, Sender_Init, Receiver_Start]) \<and>
         rtp_m s' = Object \<and> sender_m s' = Object \<and> receiver_m s' = Object \<and>
         set pre \<inter> insert New_Rtp sender_receiver_events = {})) \<and>
   (new_rtp E \<and> new_sender E \<and> new_receiver E \<longrightarrow>
      (\<exists>s' tr. init E s = Returns (RTP_OK, s', tr)) \<or>
      (\<exists>s' tr. init E s = Returns (RTP_GENERIC_ERROR, s', tr)))"
proof -
  have fails: "\<exists>s' tr. init E s = Returns (RTP_GENERIC_ERROR, s', tr) \<and>
         rtp_m s' = rtp_m s \<and> sender_m s' = sender_m s \<and> receiver_m s' = receiver_m s \<and>
         set tr \<inter> insert New_Rtp sender_receiver_events = {}"
    if f: "socket_init E \<noteq> RTP_OK \<or>
      (laddr_m s \<noteq> [] \<and> sys_bind E (create_sockaddr (laddr_m s) (src_port_m s)) = - 1) \<or>
      (laddr_m s = [] \<and> socket_bind E (src_port_m s) \<noteq> RTP_OK)"
  proof (cases "socket_init E = RTP_OK")
    case False
    from bootstrap_when_connection_returns(1) [OF init_connection_socket_fails [OF False] False]
    show ?thesis by (simp add: sender_receiver_events_def)
  next
    case True
    with f consider
        (local) "laddr_m s \<noteq> []" "sys_bind E (create_sockaddr (laddr_m s) (src_port_m s)) = - 1"
      | (wildcard) "laddr_m s = []" "socket_bind E (src_port_m s) \<noteq> RTP_OK"
      by blast
    then show ?thesis
    proof cases
      case local
      from bootstrap_when_connection_returns(1)
        [OF init_connection_local_bind_fails [OF True local]]
      show ?thesis by (simp add: sender_receiver_events_def)
    next
      case wildcard
      from bootstrap_when_connection_returns(1)
        [OF init_connection_wildcard_bind_fails [OF True wildcard] wildcard(2)]
      show ?thesis by (simp add: sender_receiver_events_def)
    qed
  qed
  have succeeds: "\<exists>s' pre. init E s =
           Returns (RTP_OK, s',
             pre @ [New_Rtp, New_Sender, New_Receiver, Sender_Init, Receiver_Start]) \<and>
         rtp_m s' = Object \<and> sender_m s' = Object \<and> receiver_m s' = Object \<and>
         set pre \<inter> insert New_Rtp sender_receiver_events = {}"
    if ok: "socket_init E = RTP_OK"
      "laddr_m s \<noteq> [] \<longrightarrow> sys_bind E (create_sockaddr (laddr_m s) (src_port_m s)) \<noteq> - 1"
      "laddr_m s = [] \<longrightarrow> socket_bind E (src_port_m s) = RTP_OK"
      and mem: "new_rtp E" "new_sender E" "new_receiver E"
  proof -
    let ?pre = "[Socket_Init,
         Bind (if laddr_m s \<noteq> [] then Host (laddr_m s) else INADDR_ANY) (src_port_m s),
         Set_Sockaddr (create_sockaddr (addr_m s) (dst_port_m s))]"
    let ?s' = "s\<lparr>addr_out_m := Some (create_sockaddr (addr_m s) (dst_port_m s)),
        rtp_m := Object, sender_m := Object, receiver_m := Object\<rparr>"
    have "init E s = Returns (RTP_OK, ?s',
        ?pre @ [New_Rtp, New_Sender, New_Receiver, Sender_Init, Receiver_Start])"
      using mem by (simp add: init_def init_connection_succeeds [OF ok] Let_def)
    moreover have "set ?pre \<inter> insert New_Rtp sender_receiver_events = {}"
      by (simp add: sender_receiver_events_def)
    moreover have "rtp_m ?s' = Object \<and> sender_m ?s' = Object \<and> receiver_m ?s' = Object"
      by simp
    ultimately show ?thesis by blast
  qed
  have either: "(\<exists>s' tr. init E s = Returns (RTP_OK, s', tr)) \<or>
      (\<exists>s' tr. init E s = Returns (RTP_GENERIC_ERROR, s', tr))"
    if mem: "new_rtp E \<and> new_sender E \<and> new_receiver E"
  proof (cases "socket_init E \<noteq> RTP_OK \<or>
      (laddr_m s \<noteq> [] \<and> sys_bind E (create_sockaddr (laddr_m s) (src_port_m s)) = - 1) \<or>
      (laddr_m s = [] \<and> socket_bind E (src_port_m s) \<noteq> RTP_OK)")
    case True
    from fails [OF True] show ?thesis by blast
  next
    case False
    then have "socket_init E = RTP_OK"
      "laddr_m s \<noteq> [] \<longrightarrow> sys_bind E (create_sockaddr (laddr_m s) (src_port_m s)) \<noteq> - 1"
      "laddr_m s = [] \<longrightarrow> socket_bind E (src_port_m s) = RTP_OK"
      by blast+
    from succeeds [OF this] mem show ?thesis by blast
  qed
  from fails succeeds either show ?thesis by blast
qed

theorem plain_bootstrap_result_witness:
  "(\<exists>s' tr. init env_socket_fails stream0 = Returns (RTP_GENERIC_ERROR, s', tr) \<and>
      rtp_m s' = Indeterminate \<and> sender_m s' = Indeterminate \<and> receiver_m s' = Indeterminate \<and>
      set tr \<inter> insert New_Rtp sender_receiver_events = {}) \<and>
   (\<exists>s' tr. init env_bind_fails stream_local = Returns (RTP_GENERIC_ERROR, s', tr) \<and>
      rtp_m s' = Indeterminate \<and> sender_m s' = Indeterminate \<and> receiver_m s' = Indeterminate \<and>
      set tr \<inter> insert New_Rtp sender_receiver_events = {}) \<and>
   (\<exists>s' tr. init env_wildcard_bind_fails stream0 = Returns (RTP_GENERIC_ERROR, s', tr) \<and>
      rtp_m s' = Indeterminate \<and> sender_m s' = Indeterminate \<and> receiver_m s' = Indeterminate \<and>
      set tr \<inter> insert New_Rtp sender_receiver_events = {}) \<and>
   (\<exists>s' pre. init env_ok stream0 =
        Returns (RTP_OK, s', pre @ [New_Rtp, New_Sender, New_Receiver, Sender_Init, Receiver_Start]) \<and>
      rtp_m s' = Object \<and> sender_m s' = Object \<and> receiver_m s' = Object \<and>
      set pre \<inter> insert New_Rtp sender_receiver_events = {})"
proof -
  note T = plain_bootstrap_result
  have a: "socket_init env_socket_fails \<noteq> RTP_OK \<or>
    (laddr_m stream0 \<noteq> [] \<and>
     sys_bind env_socket_fails (create_sockaddr (laddr_m stream0) (src_port_m stream0)) = - 1) \<or>
    (laddr_m stream0 = [] \<and> socket_bind env_socket_fails (src_port_m stream0) \<noteq> RTP_OK)"
    by (simp add: env_socket_fails_answers)
  have b: "socket_init env_bind_fails \<noteq> RTP_OK \<or>
    (laddr_m stream_local \<noteq> [] \<and>
     sys_bind env_bind_fails (create_sockaddr (laddr_m stream_local) (src_port_m stream_local)) = - 1) \<or>
    (laddr_m stream_local = [] \<and> socket_bind env_bind_fails (src_port_m stream_local) \<noteq> RTP_OK)"
    by (simp add: env_bind_fails_answers stream_local_members)
  have c: "socket_init env_wildcard_bind_fails \<noteq> RTP_OK \<or>
    (laddr_m stream0 \<noteq> [] \<and>
     sys_bind env_wildcard_bind_fails (create_sockaddr (laddr_m stream0) (src_port_m stream0)) = - 1) \<or>
    (laddr_m stream0 = [] \<and> socket_bind env_wildcard_bind_fails (src_port_m stream0) \<noteq> RTP_OK)"
    by (simp add: env_wildcard_bind_fails_answers stream0_members)
  have d: "socket_init env_ok = RTP_OK \<and>
    (laddr_m stream0 \<noteq> [] \<longrightarrow>
       sys_bind env_ok (create_sockaddr (laddr_m stream0) (src_port_m stream0)) \<noteq> - 1) \<and>
    (laddr_m stream0 = [] \<longrightarrow> socket_bind env_ok (src_port_m stream0) = RTP_OK) \<and>
    new_rtp env_ok \<and> new_sender env_ok \<and> new_receiver env_ok"
    by (simp add: env_ok_answers)
  from T [where E = env_socket_fails and s = stream0, THEN conjunct1, rule_format, OF a]
  have 1: "\<exists>s' tr. init env_socket_fails stream0 = Returns (RTP_GENERIC_ERROR, s', tr) \<and>
      rtp_m s' = Indeterminate \<and> sender_m s' = Indeterminate \<and> receiver_m s' = Indeterminate \<and>
      set tr \<inter> insert New_Rtp sender_receiver_events = {}"
    by (simp add: stream0_members)
  from T [where E = env_bind_fails and s = stream_local, THEN conjunct1, rule_format, OF b]
  have 2: "\<exists>s' tr. init env_bind_fails stream_local = Returns (RTP_GENERIC_ERROR, s', tr) \<and>
      rtp_m s' = Indeterminate \<and> sender_m s' = Indeterminate \<and> receiver_m s' = Indeterminate \<and>
      set tr \<inter> insert New_Rtp sender_receiver_events = {}"
    by (simp add: stream_local_members)
  from T [where E = env_wildcard_bind_fails and s = stream0, THEN conjunct1, rule_format, OF c]
  have 3: "\<exists>s' tr. init env_wildcard_bind_fails stream0 = Returns (RTP_GENERIC_ERROR, s', tr) \<and>
      rtp_m s' = Indeterminate \<and> sender_m s' = Indeterminate \<and> receiver_m s' = Indeterminate \<and>
      set tr \<inter> insert New_Rtp sender_receiver_events = {}"
    by (simp add: stream0_members)
  from T [where E = env_ok and s = stream0, THEN conjunct2, THEN conjunct1, rule_format, OF d]
  have 4: "\<exists>s' pre. init env_ok stream0 =
        Returns (RTP_OK, s', pre @ [New_Rtp, New_Sender, New_Receiver, Sender_Init, Receiver_Start]) \<and>
      rtp_m s' = Object \<and> sender_m s' = Object \<and> receiver_m s' = Object \<and>
      set pre \<inter> insert New_Rtp sender_receiver_events = {}" .
  from 1 2 3 4 show ?thesis by blast
qed

subsection \<open>Which address is bound\<close>

text \<open>
  C5. A stream constructed with a non-empty local address \<open>l\<close> and source port \<open>sp\<close> binds
  the socket once, to \<open>(l, sp)\<close>; a stream constructed without a local address binds it
  once, to \<open>(INADDR_ANY, sp)\<close> (both when the socket could be created). Each step that
  fails ends connection establishment there: when the socket cannot be created, its error
  is returned and nothing is bound; when the system call \<open>bind\<close> on the local address
  returns \<open>-1\<close>, \<open>RTP_BIND_ERROR\<close> is returned; when \<open>socket_.bind\<close> on the wildcard
  address returns an error, that error is returned; in the last two cases the destination
  is not set. In all three no data member of the stream is assigned, and both \<open>init\<close>
  overloads return \<open>RTP_GENERIC_ERROR\<close> at once, with no further call and nothing
  constructed. When no step fails, the destination made from the remote address and the
  destination port is stored and set on the socket, and \<open>RTP_OK\<close> is returned.
\<close>

theorem connection_binds_local_or_wildcard:
  "(l \<noteq> [] \<and> socket_init E = RTP_OK \<longrightarrow>
      binds (snd (snd (init_connection E (media_stream2 B k a l sp dp f fl)))) = [(Host l, sp)]) \<and>
   (socket_init E = RTP_OK \<longrightarrow>
      binds (snd (snd (init_connection E (media_stream1 B k a sp dp f fl)))) = [(INADDR_ANY, sp)]) \<and>
   (socket_init E = RTP_OK \<longrightarrow>
      binds (snd (snd (init_connection E s))) =
        [(if laddr_m s \<noteq> [] then Host (laddr_m s) else INADDR_ANY, src_port_m s)]) \<and>
   (socket_init E \<noteq> RTP_OK \<longrightarrow>
      init_connection E s = (socket_init E, s, [Socket_Init]) \<and>
      init E s = Returns (RTP_GENERIC_ERROR, s, [Socket_Init]) \<and>
      init_zrtp E s z = Returns (RTP_GENERIC_ERROR, s, [Socket_Init])) \<and>
   (socket_init E = RTP_OK \<and> laddr_m s \<noteq> [] \<and>
    sys_bind E (create_sockaddr (laddr_m s) (src_port_m s)) = - 1 \<longrightarrow>
      init_connection E s =
        (RTP_BIND_ERROR, s, [Socket_Init, Bind (Host (laddr_m s)) (src_port_m s)]) \<and>
      init E s =
        Returns (RTP_GENERIC_ERROR, s, [Socket_Init, Bind (Host (laddr_m s)) (src_port_m s)]) \<and>
      init_zrtp E s z =
        Returns (RTP_GENERIC_ERROR, s, [Socket_Init, Bind (Host (laddr_m s)) (src_port_m s)])) \<and>
   (socket_init E = RTP_OK \<and> laddr_m s = [] \<and> socket_bind E (src_port_m s) \<noteq> RTP_OK \<longrightarrow>
      init_connection E s =
        (socket_bind E (src_port_m s), s, [Socket_Init, Bind INADDR_ANY (src_port_m s)]) \<and>
      init E s =
        Returns (RTP_GENERIC_ERROR, s, [Socket_Init, Bind INADDR_ANY (src_port_m s)]) \<and>
      init_zrtp E s z =
        Returns (RTP_GENERIC_ERROR, s, [Socket_Init, Bind INADDR_ANY (src_port_m s)])) \<and>
   (socket_init E = RTP_OK \<and>
    (laddr_m s \<noteq> [] \<longrightarrow> sys_bind E (create_sockaddr (laddr_m s) (src_port_m s)) \<noteq> - 1) \<and>
    (laddr_m s = [] \<longrightarrow> socket_bind E (src_port_m s) = RTP_OK) \<longrightarrow>
      init_connection E s =
        (RTP_OK,
         s\<lparr>addr_out_m := Some (create_sockaddr (addr_m s) (dst_port_m s))\<rparr>,
         [Socket_Init,
          Bind (if laddr_m s \<noteq> [] then Host (laddr_m s) else INADDR_ANY) (src_port_m s),
          Set_Sockaddr (create_sockaddr (addr_m s) (dst_port_m s))])) \<and>
   (fst (init_connection E s) \<noteq> RTP_OK \<longrightarrow>
      fst (snd (init_connection E s)) = s \<and>
      (\<forall>e \<in> set (snd (snd (init_connection E s))). e = Socket_Init \<or> (\<exists>h p. e = Bind h p)) \<and>
      init E s = Returns (RTP_GENERIC_ERROR, s, snd (snd (init_connection E s))) \<and>
      init_zrtp E s z = Returns (RTP_GENERIC_ERROR, s, snd (snd (init_connection E s))))"
proof (intro conjI impI)
  assume "l \<noteq> [] \<and> socket_init E = RTP_OK"
  then show "binds (snd (snd (init_connection E (media_stream2 B k a l sp dp f fl)))) = [(Host l, sp)]"
    by (simp add: binds_init_connection media_stream1_def media_stream2_def)
next
  assume "socket_init E = RTP_OK"
  then show "binds (snd (snd (init_connection E (media_stream1 B k a sp dp f fl)))) = [(INADDR_ANY, sp)]"
    by (simp add: binds_init_connection media_stream1_def)
next
  assume "socket_init E = RTP_OK"
  then show "binds (snd (snd (init_connection E s))) =
        [(if laddr_m s \<noteq> [] then Host (laddr_m s) else INADDR_ANY, src_port_m s)]"
    by (rule binds_init_connection)
next
  assume f: "socket_init E \<noteq> RTP_OK"
  note ic = init_connection_socket_fails [OF f]
  show "init_connection E s = (socket_init E, s, [Socket_Init])"
    by (rule ic)
  show "init E s = Returns (RTP_GENERIC_ERROR, s, [Socket_Init])"
    by (rule bootstrap_when_connection_returns(1) [OF ic f])
  show "init_zrtp E s z = Returns (RTP_GENERIC_ERROR, s, [Socket_Init])"
    by (rule bootstrap_when_connection_returns(2) [OF ic f])
next
  assume f: "socket_init E = RTP_OK \<and> laddr_m s \<noteq> [] \<and>
    sys_bind E (create_sockaddr (laddr_m s) (src_port_m s)) = - 1"
  then have ic: "init_connection E s =
        (RTP_BIND_ERROR, s, [Socket_Init, Bind (Host (laddr_m s)) (src_port_m s)])"
    by (simp add: init_connection_local_bind_fails)
  have ne: "RTP_BIND_ERROR \<noteq> RTP_OK" by simp
  show "init_connection E s =
        (RTP_BIND_ERROR, s, [Socket_Init, Bind (Host (laddr_m s)) (src_port_m s)])"
    by (rule ic)
  show "init E s =
        Returns (RTP_GENERIC_ERROR, s, [Socket_Init, Bind (Host (laddr_m s)) (src_port_m s)])"
    by (rule bootstrap_when_connection_returns(1) [OF ic ne])
  show "init_zrtp E s z =
        Returns (RTP_GENERIC_ERROR, s, [Socket_Init, Bind (Host (laddr_m s)) (src_port_m s)])"
    by (rule bootstrap_when_connection_returns(2) [OF ic ne])
next
  assume f: "socket_init E = RTP_OK \<and> laddr_m s = [] \<and> socket_bind E (src_port_m s) \<noteq> RTP_OK"
  then have ic: "init_connection E s =
        (socket_bind E (src_port_m s), s, [Socket_Init, Bind INADDR_ANY (src_port_m s)])"
    by (simp add: init_connection_wildcard_bind_fails)
  from f have ne: "socket_bind E (src_port_m s) \<noteq> RTP_OK" by simp
  show "init_connection E s =
        (socket_bind E (src_port_m s), s, [Socket_Init, Bind INADDR_ANY (src_port_m s)])"
    by (rule ic)
  show "init E s =
        Returns (RTP_GENERIC_ERROR, s, [Socket_Init, Bind INADDR_ANY (src_port_m s)])"
    by (rule bootstrap_when_connection_returns(1) [OF ic ne])
  show "init_zrtp E s z =
        Returns (RTP_GENERIC_ERROR, s, [Socket_Init, Bind INADDR_ANY (src_port_m s)])"
    by (rule bootstrap_when_connection_returns(2) [OF ic ne])
next
  assume "socket_init E = RTP_OK \<and>
    (laddr_m s \<noteq> [] \<longrightarrow> sys_bind E (create_sockaddr (laddr_m s) (src_port_m s)) \<noteq> - 1) \<and>
    (laddr_m s = [] \<longrightarrow> socket_bind E (src_port_m s) = RTP_OK)"
  then show "init_connection E s =
        (RTP_OK,
         s\<lparr>addr_out_m := Some (create_sockaddr (addr_m s) (dst_port_m s))\<rparr>,
         [Socket_Init,
          Bind (if laddr_m s \<noteq> [] then Host (laddr_m s) else INADDR_ANY) (src_port_m s),
          Set_Sockaddr (create_sockaddr (addr_m s) (dst_port_m s))])"
    by (intro init_connection_succeeds) blast+
next
  assume f: "fst (init_connection E s) \<noteq> RTP_OK"
  show "fst (snd (init_connection E s)) = s"
    by (rule init_connection_failed(1) [OF f])
  show "\<forall>e \<in> set (snd (snd (init_connection E s))). e = Socket_Init \<or> (\<exists>h p. e = Bind h p)"
    by (rule init_connection_failed(2) [OF f])
  show "init E s = Returns (RTP_GENERIC_ERROR, s, snd (snd (init_connection E s)))"
    by (rule bootstrap_after_failed_connection(1) [OF f])
  show "init_zrtp E s z = Returns (RTP_GENERIC_ERROR, s, snd (snd (init_connection E s)))"
    by (rule bootstrap_after_failed_connection(2) [OF f])
qed

theorem connection_binds_local_or_wildcard_witness:
  "binds (snd (snd (init_connection env_ok stream_local))) = [(Host ''192.0.2.1'', 5004)] \<and>
   binds (snd (snd (init_connection env_ok stream0))) = [(INADDR_ANY, 5004)] \<and>
   init_connection env_socket_fails stream0 = (RTP_OTHER_ERROR (- 2), stream0, [Socket_Init]) \<and>
   init env_socket_fails stream0 = Returns (RTP_GENERIC_ERROR, stream0, [Socket_Init]) \<and>
   init_connection env_bind_fails stream_local =
     (RTP_BIND_ERROR, stream_local, [Socket_Init, Bind (Host ''192.0.2.1'') 5004]) \<and>
   init env_bind_fails stream_local =
     Returns (RTP_GENERIC_ERROR, stream_local, [Socket_Init, Bind (Host ''192.0.2.1'') 5004]) \<and>
   init_zrtp env_bind_fails stream_local Object =
     Returns (RTP_GENERIC_ERROR, stream_local, [Socket_Init, Bind (Host ''192.0.2.1'') 5004]) \<and>
   init_connection env_wildcard_bind_fails stream0 =
     (RTP_OTHER_ERROR (- 2), stream0, [Socket_Init, Bind INADDR_ANY 5004]) \<and>
   init env_wildcard_bind_fails stream0 =
     Returns (RTP_GENERIC_ERROR, stream0, [Socket_Init, Bind INADDR_ANY 5004]) \<and>
   init_connection env_ok stream0 =
     (RTP_OK, stream0_bound,
      [Socket_Init, Bind INADDR_ANY 5004, Set_Sockaddr (create_sockaddr ''203.0.113.5'' 5004)])"
proof -
  note T = connection_binds_local_or_wildcard
  have ok: "''192.0.2.1'' \<noteq> [] \<and> socket_init env_ok = RTP_OK"
    by (simp add: env_ok_answers)
  have sf: "socket_init env_socket_fails \<noteq> RTP_OK"
    by (simp add: env_socket_fails_answers)
  have lf: "socket_init env_bind_fails = RTP_OK \<and> laddr_m stream_local \<noteq> [] \<and>
      sys_bind env_bind_fails (create_sockaddr (laddr_m stream_local) (src_port_m stream_local)) = - 1"
    by (simp add: env_bind_fails_answers stream_local_members)
  have wf: "socket_init env_wildcard_bind_fails = RTP_OK \<and> laddr_m stream0 = [] \<and>
      socket_bind env_wildcard_bind_fails (src_port_m stream0) \<noteq> RTP_OK"
    by (simp add: env_wildcard_bind_fails_answers stream0_members)
  have su: "socket_init env_ok = RTP_OK \<and>
      (laddr_m stream0 \<noteq> [] \<longrightarrow>
         sys_bind env_ok (create_sockaddr (laddr_m stream0) (src_port_m stream0)) \<noteq> - 1) \<and>
      (laddr_m stream0 = [] \<longrightarrow> socket_bind env_ok (src_port_m stream0) = RTP_OK)"
    by (simp add: env_ok_answers)
  from T [where E = env_ok and l = "''192.0.2.1''" and B = bounds0 and k = 77
            and a = "''203.0.113.5''" and sp = 5004 and dp = 5004 and f = 0 and fl = 0,
          THEN conjunct1, rule_format, OF ok]
  have 1: "binds (snd (snd (init_connection env_ok stream_local))) = [(Host ''192.0.2.1'', 5004)]"
    by (simp add: stream_local_def)
  from T [where E = env_ok and B = bounds0 and k = 77
            and a = "''203.0.113.5''" and sp = 5004 and dp = 5004 and f = 0 and fl = 0,
          THEN conjunct2, THEN conjunct1, rule_format, OF conjunct2 [OF ok]]
  have 2: "binds (snd (snd (init_connection env_ok stream0))) = [(INADDR_ANY, 5004)]"
    by (simp add: stream0_def)
  from T [where E = env_socket_fails and s = stream0,
          THEN conjunct2, THEN conjunct2, THEN conjunct2, THEN conjunct1, rule_format, OF sf]
  have 3: "init_connection env_socket_fails stream0 = (RTP_OTHER_ERROR (- 2), stream0, [Socket_Init]) \<and>
   init env_socket_fails stream0 = Returns (RTP_GENERIC_ERROR, stream0, [Socket_Init])"
    by (simp add: env_socket_fails_answers)
  from T [where E = env_bind_fails and s = stream_local and z = Object,
          THEN conjunct2, THEN conjunct2, THEN conjunct2, THEN conjunct2, THEN conjunct1,
          rule_format, OF lf]
  have 4: "init_connection env_bind_fails stream_local =
     (RTP_BIND_ERROR, stream_local, [Socket_Init, Bind (Host ''192.0.2.1'') 5004]) \<and>
   init env_bind_fails stream_local =
     Returns (RTP_GENERIC_ERROR, stream_local, [Socket_Init, Bind (Host ''192.0.2.1'') 5004]) \<and>
   init_zrtp env_bind_fails stream_local Object =
     Returns (RTP_GENERIC_ERROR, stream_local, [Socket_Init, Bind (Host ''192.0.2.1'') 5004])"
    by (simp add: stream_local_members)
  from T [where E = env_wildcard_bind_fails and s = stream0,
          THEN conjunct2, THEN conjunct2, THEN conjunct2, THEN conjunct2, THEN conjunct2,
          THEN conjunct1, rule_format, OF wf]
  have 5: "init_connection env_wildcard_bind_fails stream0 =
     (RTP_OTHER_ERROR (- 2), stream0, [Socket_Init, Bind INADDR_ANY 5004]) \<and>
   init env_wildcard_bind_fails stream0 =
     Returns (RTP_GENERIC_ERROR, stream0, [Socket_Init, Bind INADDR_ANY 5004])"
    by (simp add: stream0_members env_wildcard_bind_fails_answers)
  from T [where E = env_ok and s = stream0,
          THEN conjunct2, THEN conjunct2, THEN conjunct2, THEN conjunct2, THEN conjunct2,
          THEN conjunct2, THEN conjunct1, rule_format, OF su]
  have 6: "init_connection env_ok stream0 =
     (RTP_OK, stream0_bound,
      [Socket_Init, Bind INADDR_ANY 5004, Set_Sockaddr (create_sockaddr ''203.0.113.5'' 5004)])"
    by (simp add: stream0_members stream0_bound_def)
  from 1 2 3 4 5 6 show ?thesis by blast
qed

subsection \<open>Configuration setters\<close>

lemma word_or_absorb_set: "M OR F = M" if "M AND F = F" for M F :: "'a::len word"
proof -
  have "M OR F = M OR (M AND F)" using that by simp
  also have "\<dots> = M" by (auto simp: bit_eq_iff bit_or_iff bit_and_iff)
  finally show ?thesis .
qed

text \<open>
  C6. \<open>configure_ctx(F)\<close>, with \<open>F\<close> read as a signed 32-bit integer. When \<open>F\<close> is negative
  or at least \<open>RCE_LAST\<close>, the call returns \<open>RTP_INVALID_VALUE\<close> and the stream is
  unchanged. Otherwise it returns \<open>RTP_OK\<close>, the flag bitmask becomes the previous bitmask
  OR \<open>F\<close> and nothing else changes; a second \<open>configure_ctx(F)\<close> returns \<open>RTP_OK\<close> and
  leaves the stream as the first left it; and on a stream just constructed with flags \<open>M\<close>
  that contain \<open>F\<close>, the call returns \<open>RTP_OK\<close> and leaves the stream as constructed.
\<close>

theorem configure_ctx_flag:
  "(sint F < 0 \<or> sint (RCE_LAST B) \<le> sint F \<longrightarrow> configure_ctx B s F = (RTP_INVALID_VALUE, s)) \<and>
   (0 \<le> sint F \<and> sint F < sint (RCE_LAST B) \<longrightarrow>
      fst (configure_ctx B s F) = RTP_OK \<and>
      flags (ctx_config_m (snd (configure_ctx B s F))) = flags (ctx_config_m s) OR F \<and>
      snd (configure_ctx B s F) =
        s\<lparr>ctx_config_m := (ctx_config_m s)\<lparr>flags := flags (ctx_config_m s) OR F\<rparr>\<rparr> \<and>
      configure_ctx B (snd (configure_ctx B s F)) F = (RTP_OK, snd (configure_ctx B s F)) \<and>
      (M AND F = F \<longrightarrow>
         configure_ctx B (media_stream1 B k a sp dp f M) F = (RTP_OK, media_stream1 B k a sp dp f M)))"
  by (auto simp: configure_ctx_def word_sless_alt word_sle_eq media_stream1_def word_or_absorb_set)

theorem configure_ctx_flag_witness:
  "configure_ctx bounds0 stream0 (- 1) = (RTP_INVALID_VALUE, stream0) \<and>
   configure_ctx bounds0 stream0 1024 = (RTP_INVALID_VALUE, stream0) \<and>
   fst (configure_ctx bounds0 stream0 4) = RTP_OK \<and>
   flags (ctx_config_m (snd (configure_ctx bounds0 stream0 4))) = 4 \<and>
   configure_ctx bounds0 (snd (configure_ctx bounds0 stream0 4)) 4 =
     (RTP_OK, snd (configure_ctx bounds0 stream0 4)) \<and>
   configure_ctx bounds0 (media_stream1 bounds0 77 ''203.0.113.5'' 5004 5004 0 12) 4 =
     (RTP_OK, media_stream1 bounds0 77 ''203.0.113.5'' 5004 5004 0 12)"
proof -
  have neg: "sint (- 1 :: c_int) < 0 \<or> sint (RCE_LAST bounds0) \<le> sint (- 1 :: c_int)"
    by simp
  have big: "sint (1024 :: c_int) < 0 \<or> sint (RCE_LAST bounds0) \<le> sint (1024 :: c_int)"
    by (simp add: bounds0_def)
  have ok: "0 \<le> sint (4 :: c_int) \<and> sint (4 :: c_int) < sint (RCE_LAST bounds0)"
    by (simp add: bounds0_def)
  have set: "(12 :: c_int) AND 4 = 4"
    by simp
  have f0: "flags (ctx_config_m stream0) OR 4 = 4"
    by (simp add: stream0_def media_stream1_def)
  note T = configure_ctx_flag
  from T [where F = "- 1" and B = bounds0 and s = stream0, THEN conjunct1, rule_format, OF neg]
  have 1: "configure_ctx bounds0 stream0 (- 1) = (RTP_INVALID_VALUE, stream0)" .
  from T [where F = 1024 and B = bounds0 and s = stream0, THEN conjunct1, rule_format, OF big]
  have 2: "configure_ctx bounds0 stream0 1024 = (RTP_INVALID_VALUE, stream0)" .
  note A = T [where F = 4 and B = bounds0 and s = stream0 and M = 12 and k = 77
            and a = "''203.0.113.5''" and sp = 5004 and dp = 5004 and f = 0,
          THEN conjunct2, rule_format, OF ok]
  from A have a1: "fst (configure_ctx bounds0 stream0 4) = RTP_OK"
    by blast
  from A have "flags (ctx_config_m (snd (configure_ctx bounds0 stream0 4))) =
      flags (ctx_config_m stream0) OR 4"
    by blast
  with f0 have a2: "flags (ctx_config_m (snd (configure_ctx bounds0 stream0 4))) = 4"
    by simp
  from A have a3: "configure_ctx bounds0 (snd (configure_ctx bounds0 stream0 4)) 4 =
     (RTP_OK, snd (configure_ctx bounds0 stream0 4))"
    by blast
  from A set have a4:
    "configure_ctx bounds0 (media_stream1 bounds0 77 ''203.0.113.5'' 5004 5004 0 12) 4 =
     (RTP_OK, media_stream1 bounds0 77 ''203.0.113.5'' 5004 5004 0 12)"
    by blast
  from a1 a2 a3 a4
  have 3: "fst (configure_ctx bounds0 stream0 4) = RTP_OK \<and>
   flags (ctx_config_m (snd (configure_ctx bounds0 stream0 4))) = 4 \<and>
   configure_ctx bounds0 (snd (configure_ctx bounds0 stream0 4)) 4 =
     (RTP_OK, snd (configure_ctx bounds0 stream0 4)) \<and>
   configure_ctx bounds0 (media_stream1 bounds0 77 ''203.0.113.5'' 5004 5004 0 12) 4 =
     (RTP_OK, media_stream1 bounds0 77 ''203.0.113.5'' 5004 5004 0 12)"
    by blast
  from 1 2 3 show ?thesis by blast
qed

text \<open>
  C7. \<open>configure_ctx(k, v)\<close>, with \<open>k\<close> a signed 32-bit and \<open>v\<close> a signed 64-bit integer.
  When \<open>k\<close> is negative, \<open>k\<close> is at least \<open>RCC_LAST\<close>, or \<open>v\<close> is negative, the call
  returns \<open>RTP_INVALID_VALUE\<close> and the stream is unchanged. Otherwise it returns \<open>RTP_OK\<close>
  and changes nothing but the table, which is updated at index \<open>k\<close>: in a table of
  \<open>RCC_LAST\<close> entries (as the constructor makes it) entry \<open>k\<close> is \<open>v\<close>, every other
  entry is what it was, and the table keeps its length.
\<close>

theorem configure_ctx_value_spec:
  "(sint k < 0 \<or> sint (RCC_LAST B) \<le> sint k \<or> sint v < 0 \<longrightarrow>
      configure_ctx_value B s k v = (RTP_INVALID_VALUE, s)) \<and>
   (0 \<le> sint k \<and> sint k < sint (RCC_LAST B) \<and> 0 \<le> sint v \<longrightarrow>
      configure_ctx_value B s k v =
        (RTP_OK, s\<lparr>ctx_config_m := (ctx_config_m s)\<lparr>ctx_values :=
                     (ctx_values (ctx_config_m s))[nat (sint k) := v]\<rparr>\<rparr>) \<and>
      (length (ctx_values (ctx_config_m s)) = nat (sint (RCC_LAST B)) \<longrightarrow>
         ctx_values (ctx_config_m (snd (configure_ctx_value B s k v))) ! nat (sint k) = v \<and>
         length (ctx_values (ctx_config_m (snd (configure_ctx_value B s k v)))) =
           nat (sint (RCC_LAST B)) \<and>
         (\<forall>j. j \<noteq> nat (sint k) \<longrightarrow>
            ctx_values (ctx_config_m (snd (configure_ctx_value B s k v))) ! j =
            ctx_values (ctx_config_m s) ! j)))"
  by (auto simp: configure_ctx_value_def word_sless_alt word_sle_eq)

theorem configure_ctx_value_spec_witness:
  "configure_ctx_value bounds0 stream0 (- 1) 9 = (RTP_INVALID_VALUE, stream0) \<and>
   configure_ctx_value bounds0 stream0 4 9 = (RTP_INVALID_VALUE, stream0) \<and>
   configure_ctx_value bounds0 stream0 2 (- 1) = (RTP_INVALID_VALUE, stream0) \<and>
   fst (configure_ctx_value bounds0 stream0 2 9) = RTP_OK \<and>
   ctx_values (ctx_config_m (snd (configure_ctx_value bounds0 stream0 2 9))) ! 2 = 9 \<and>
   ctx_values (ctx_config_m (snd (configure_ctx_value bounds0 stream0 2 9))) ! 3 = 0"
proof -
  have neg: "sint (- 1 :: c_int) < 0 \<or> sint (RCC_LAST bounds0) \<le> sint (- 1 :: c_int) \<or>
      sint (9 :: ssize_t) < 0"
    by simp
  have big: "sint (4 :: c_int) < 0 \<or> sint (RCC_LAST bounds0) \<le> sint (4 :: c_int) \<or>
      sint (9 :: ssize_t) < 0"
    by (simp add: bounds0_def)
  have nv: "sint (2 :: c_int) < 0 \<or> sint (RCC_LAST bounds0) \<le> sint (2 :: c_int) \<or>
      sint (- 1 :: ssize_t) < 0"
    by simp
  have ok: "0 \<le> sint (2 :: c_int) \<and> sint (2 :: c_int) < sint (RCC_LAST bounds0) \<and>
      0 \<le> sint (9 :: ssize_t)"
    by (simp add: bounds0_def)
  have len: "length (ctx_values (ctx_config_m stream0)) = nat (sint (RCC_LAST bounds0))"
    by (simp add: stream0_def media_stream1_def)
  have old: "ctx_values (ctx_config_m stream0) ! 3 = 0"
    by (simp add: stream0_def media_stream1_def bounds0_def)
  note T = configure_ctx_value_spec
  from T [where k = "- 1" and v = 9 and B = bounds0 and s = stream0, THEN conjunct1, rule_format, OF neg]
  have 1: "configure_ctx_value bounds0 stream0 (- 1) 9 = (RTP_INVALID_VALUE, stream0)" .
  from T [where k = 4 and v = 9 and B = bounds0 and s = stream0, THEN conjunct1, rule_format, OF big]
  have 2: "configure_ctx_value bounds0 stream0 4 9 = (RTP_INVALID_VALUE, stream0)" .
  from T [where k = 2 and v = "- 1" and B = bounds0 and s = stream0, THEN conjunct1, rule_format, OF nv]
  have 3: "configure_ctx_value bounds0 stream0 2 (- 1) = (RTP_INVALID_VALUE, stream0)" .
  note A = T [where k = 2 and v = 9 and B = bounds0 and s = stream0,
          THEN conjunct2, rule_format, OF ok]
  from A have "configure_ctx_value bounds0 stream0 2 9 =
        (RTP_OK, stream0\<lparr>ctx_config_m := (ctx_config_m stream0)\<lparr>ctx_values :=
                     (ctx_values (ctx_config_m stream0))[nat (sint (2 :: c_int)) := 9]\<rparr>\<rparr>)"
    by blast
  then have a1: "fst (configure_ctx_value bounds0 stream0 2 9) = RTP_OK"
    by simp
  from A len have B:
    "ctx_values (ctx_config_m (snd (configure_ctx_value bounds0 stream0 2 9))) ! nat (sint (2 :: c_int)) = 9 \<and>
     (\<forall>j. j \<noteq> nat (sint (2 :: c_int)) \<longrightarrow>
        ctx_values (ctx_config_m (snd (configure_ctx_value bounds0 stream0 2 9))) ! j =
        ctx_values (ctx_config_m stream0) ! j)"
    by blast
  from B have a2: "ctx_values (ctx_config_m (snd (configure_ctx_value bounds0 stream0 2 9))) ! 2 = 9"
    by simp
  from B have "(3 :: nat) \<noteq> nat (sint (2 :: c_int)) \<longrightarrow>
      ctx_values (ctx_config_m (snd (configure_ctx_value bounds0 stream0 2 9))) ! 3 =
      ctx_values (ctx_config_m stream0) ! 3"
    by blast
  with old have a3: "ctx_values (ctx_config_m (snd (configure_ctx_value bounds0 stream0 2 9))) ! 3 = 0"
    by simp
  from a1 a2 a3
  have 4: "fst (configure_ctx_value bounds0 stream0 2 9) = RTP_OK \<and>
   ctx_values (ctx_config_m (snd (configure_ctx_value bounds0 stream0 2 9))) ! 2 = 9 \<and>
   ctx_values (ctx_config_m (snd (configure_ctx_value bounds0 stream0 2 9))) ! 3 = 0"
    by blast
  from 1 2 3 4 show ?thesis by blast
qed

subsection \<open>Hooks\<close>

text \<open>
  A stream that was constructed and not bootstrapped has no receiver and no sender: with a
  callback that is not null, both hook installers dereference the unassigned pointer and
  do not return success.
\<close>

theorem hooks_counterexample:
  "install_receive_hook stream0 None (Some 1) = Undefined_Behaviour \<and>
   install_receive_hook stream0 None (Some 1) \<noteq> Returns (RTP_OK, [Install_Recv_Hook None 1]) \<and>
   install_deallocation_hook stream0 (Some 1) = Undefined_Behaviour \<and>
   install_deallocation_hook stream0 (Some 1) \<noteq> Returns (RTP_OK, [Install_Dealloc_Hook 1])"
  by (simp add: stream0_def media_stream1_def install_receive_hook_def install_deallocation_hook_def)

text \<open>
  C8 (as amended). On every stream, \<open>install_receive_hook\<close> and
  \<open>install_deallocation_hook\<close> called with a null callback return \<open>RTP_INVALID_VALUE\<close>
  and make no call on the receiver or the sender. With a callback that is not null, on a
  stream whose receiver (for the receive hook) or sender (for the deallocation hook) has
  been constructed, the call forwards the callback to it, once, and returns \<open>RTP_OK\<close>.
\<close>

theorem hooks_reject_null:
  "install_receive_hook s arg None = Returns (RTP_INVALID_VALUE, []) \<and>
   install_deallocation_hook s None = Returns (RTP_INVALID_VALUE, []) \<and>
   (receiver_m s = Object \<longrightarrow>
      install_receive_hook s arg (Some h) = Returns (RTP_OK, [Install_Recv_Hook arg h])) \<and>
   (sender_m s = Object \<longrightarrow>
      install_deallocation_hook s (Some h) = Returns (RTP_OK, [Install_Dealloc_Hook h]))"
  by (simp add: install_receive_hook_def install_deallocation_hook_def)

theorem hooks_reject_null_witness:
  "install_receive_hook stream0 None None = Returns (RTP_INVALID_VALUE, []) \<and>
   install_deallocation_hook stream0 None = Returns (RTP_INVALID_VALUE, []) \<and>
   install_receive_hook stream0_plain None (Some 1) = Returns (RTP_OK, [Install_Recv_Hook None 1]) \<and>
   install_deallocation_hook stream0_plain (Some 1) = Returns (RTP_OK, [Install_Dealloc_Hook 1])"
proof -
  have r: "receiver_m stream0_plain = Object" and s: "sender_m stream0_plain = Object"
    by (simp_all add: stream0_plain_def)
  note T = hooks_reject_null
  from T [where s = stream0 and arg = None]
  have 1: "install_receive_hook stream0 None None = Returns (RTP_INVALID_VALUE, []) \<and>
   install_deallocation_hook stream0 None = Returns (RTP_INVALID_VALUE, [])"
    by blast
  from T [where s = stream0_plain and arg = None and h = 1] r s
  have 2: "install_receive_hook stream0_plain None (Some 1) = Returns (RTP_OK, [Install_Recv_Hook None 1]) \<and>
   install_deallocation_hook stream0_plain (Some 1) = Returns (RTP_OK, [Install_Dealloc_Hook 1])"
    by blast
  from 1 2 show ?thesis by blast
qed

subsection \<open>The session key\<close>

lemma after_bootstrap_init_key:
  "after_bootstrap (init E s) = Returns s' \<Longrightarrow> key_m s' = key_m s"
  using init_connection_trace [of E s]
  by (cases "init_connection E s")
     (auto simp: after_bootstrap_def init_def Let_def split: if_splits)

lemma after_bootstrap_init_zrtp_key:
  "after_bootstrap (init_zrtp E s z) = Returns s' \<Longrightarrow> key_m s' = key_m s"
  using init_connection_trace [of E s]
  by (cases "init_connection E s")
     (auto simp: after_bootstrap_def init_zrtp_def Let_def split: if_splits)

lemma step_key: "step B E s c = Returns s' \<Longrightarrow> key_m s' = key_m s"
proof (cases c)
  case Call_Init
  assume "step B E s c = Returns s'"
  with Call_Init show ?thesis
    by (simp add: after_bootstrap_init_key)
next
  case (Call_Init_Zrtp z)
  assume "step B E s c = Returns s'"
  with Call_Init_Zrtp show ?thesis
    by (simp add: after_bootstrap_init_zrtp_key)
qed (auto simp: keep_def push_frame_def push_frame_owned_def pull_frame_def
      install_receive_hook_def install_deallocation_hook_def set_media_config_def
      configure_ctx_def configure_ctx_value_def split: if_splits run.splits option.splits)

lemma run_calls0_returns: "\<exists>s'. run_calls bounds0 stream0 calls0 = Returns s'"
  by (simp add: calls0_def fixture_defs after_bootstrap_def init_def init_connection_def Let_def
      keep_def push_frame_def pull_frame_def install_receive_hook_def configure_ctx_def
      configure_ctx_value_def set_media_config_def)

text \<open>
  C9. \<open>get_key()\<close> on a stream made by either constructor returns the 32-bit value
  \<open>generate_32()\<close> gave the constructor. No method writes \<open>key_\<close>: after any sequence of
  calls of \<open>init\<close>, the secure \<open>init\<close>, \<open>push_frame\<close>, \<open>pull_frame\<close>, the hook
  installers, \<open>set_media_config\<close>, \<open>get_media_config\<close>, both \<open>configure_ctx\<close> and
  \<open>get_key\<close>, each in an environment of its own, that runs to its end (no call of it
  dereferences an absent sender, receiver or key exchange; a bootstrap that throws
  \<open>std::bad_alloc\<close> counts as a call, the sequence going on with the stream as the throw
  left it), \<open>get_key()\<close> returns what it returned before the sequence.
\<close>

theorem get_key_fixed:
  "get_key (media_stream1 B k a sp dp f fl) = k \<and>
   get_key (media_stream2 B k a l sp dp f fl) = k \<and>
   (run_calls B s cs = Returns s' \<longrightarrow> get_key s' = get_key s)"
proof -
  have "run_calls B s cs = Returns s' \<Longrightarrow> key_m s' = key_m s"
  proof (induction cs arbitrary: s)
    case Nil
    then show ?case by simp
  next
    case (Cons ec cs)
    obtain E c where ec: "ec = (E, c)" by (cases ec)
    from Cons.prems ec obtain s1 where s1: "step B E s c = Returns s1"
      and rest: "run_calls B s1 cs = Returns s'"
      by (auto split: run.splits)
    from Cons.IH [OF rest] step_key [OF s1] show ?case by simp
  qed
  then show ?thesis
    by (simp add: get_key_def media_stream1_def media_stream2_def)
qed

theorem get_key_fixed_witness:
  "get_key stream0 = 77 \<and>
   (\<exists>s'. run_calls bounds0 stream0 calls0 = Returns s' \<and> get_key s' = 77)"
proof -
  note T = get_key_fixed [where B = bounds0 and k = 77 and a = "''203.0.113.5''" and sp = 5004
      and dp = 5004 and f = 0 and fl = 0 and s = stream0 and cs = calls0]
  from T have k: "get_key stream0 = 77"
    by (simp add: stream0_def)
  from run_calls0_returns obtain s' where r: "run_calls bounds0 stream0 calls0 = Returns s'"
    by blast
  with T [where s' = s'] k have "get_key s' = 77"
    by simp
  with k r show ?thesis
    by blast
qed

subsection \<open>The empty local address\<close>

text \<open>
  C10. The constructor with a local address, given the empty string, makes the very stream
  the constructor without a local address makes; so connection establishment does the
  same on both, and what it binds (when the socket can be created) is
  \<open>(INADDR_ANY, source port)\<close>, through \<open>socket_.bind\<close>, never an empty address.
\<close>

theorem empty_local_address_is_wildcard:
  "media_stream2 B k a [] sp dp f fl = media_stream1 B k a sp dp f fl \<and>
   init_connection E (media_stream2 B k a [] sp dp f fl) =
     init_connection E (media_stream1 B k a sp dp f fl) \<and>
   binds (snd (snd (init_connection E (media_stream2 B k a [] sp dp f fl)))) =
     (if socket_init E = RTP_OK then [(INADDR_ANY, sp)] else [])"
  by (simp add: init_connection_def Let_def media_stream1_def media_stream2_def)

theorem empty_local_address_is_wildcard_witness:
  "media_stream2 bounds0 77 ''203.0.113.5'' [] 5004 5004 0 0 = stream0 \<and>
   binds (snd (snd (init_connection env_ok (media_stream2 bounds0 77 ''203.0.113.5'' [] 5004 5004 0 0)))) =
     [(INADDR_ANY, 5004)]"
proof -
  have ok: "socket_init env_ok = RTP_OK"
    by (simp add: env_ok_def)
  note T = empty_local_address_is_wildcard [where B = bounds0 and k = 77 and a = "''203.0.113.5''"
      and sp = 5004 and dp = 5004 and f = 0 and fl = 0 and E = env_ok]
  have 1: "media_stream2 bounds0 77 ''203.0.113.5'' [] 5004 5004 0 0 = stream0"
    unfolding stream0_def using T by blast
  from T have "binds (snd (snd (init_connection env_ok
        (media_stream2 bounds0 77 ''203.0.113.5'' [] 5004 5004 0 0)))) =
     (if socket_init env_ok = RTP_OK then [(INADDR_ANY, 5004)] else [])"
    by blast
  with ok have 2: "binds (snd (snd (init_connection env_ok
        (media_stream2 bounds0 77 ''203.0.113.5'' [] 5004 5004 0 0)))) = [(INADDR_ANY, 5004)]"
    by simp
  from 1 2 show ?thesis by blast
qed

subsection \<open>Teardown and frame calls without a sender and a receiver\<close>

text \<open>
  C2, at the failing inputs. The destructor of a stream that was never bootstrapped
  dereferences the unassigned \<open>sender_\<close>. So does the destructor after a plain bootstrap
  that failed at socket creation (the stream is unchanged) and after a secure bootstrap
  whose handshake failed (only \<open>rtp_\<close> and the destination were assigned). After a plain
  bootstrap that succeeded the destructor is defined, and \<open>delete srtp_\<close> on the null
  \<open>srtp_\<close> does nothing.
\<close>

theorem destructor_without_bootstrap:
  "destructor stream0 = Undefined_Behaviour \<and>
   init env_socket_fails stream0 = Returns (RTP_GENERIC_ERROR, stream0, [Socket_Init]) \<and>
   init_zrtp env_zrtp_fails stream0 Object =
     Returns (RTP_OTHER_ERROR (- 12), stream0_bound\<lparr>rtp_m := Object\<rparr>,
              [Socket_Init, Bind INADDR_ANY 5004,
               Set_Sockaddr (create_sockaddr ''203.0.113.5'' 5004), New_Rtp, Zrtp_Init]) \<and>
   destructor (stream0_bound\<lparr>rtp_m := Object\<rparr>) = Undefined_Behaviour \<and>
   destructor stream0_plain =
     Returns [Sender_Destroy, Receiver_Stop, Delete_Sender, Delete_Receiver, Delete_Rtp]"
proof -
  have 1: "destructor stream0 = Undefined_Behaviour"
    by (simp add: destructor_def member_call_def stream0_def media_stream1_def)
  have 2: "init env_socket_fails stream0 = Returns (RTP_GENERIC_ERROR, stream0, [Socket_Init])"
    by (simp add: init_def init_connection_def env_socket_fails_def env_ok_def)
  have e: "new_rtp env_zrtp_fails" "zrtp_init env_zrtp_fails = RTP_OTHER_ERROR (- 12)"
    by (simp_all add: env_zrtp_fails_def env_ok_def)
  have 3: "init_zrtp env_zrtp_fails stream0 Object =
     Returns (RTP_OTHER_ERROR (- 12), stream0_bound\<lparr>rtp_m := Object\<rparr>,
              [Socket_Init, Bind INADDR_ANY 5004,
               Set_Sockaddr (create_sockaddr ''203.0.113.5'' 5004), New_Rtp, Zrtp_Init])"
    by (simp add: init_zrtp_def init_connection_zrtp_fails_stream0 Let_def e)
  have 4: "destructor (stream0_bound\<lparr>rtp_m := Object\<rparr>) = Undefined_Behaviour"
    by (simp add: destructor_def member_call_def stream0_bound_def stream0_def media_stream1_def)
  have 5: "destructor stream0_plain =
     Returns [Sender_Destroy, Receiver_Stop, Delete_Sender, Delete_Receiver, Delete_Rtp]"
    by (simp add: destructor_def member_call_def delete_def stream0_plain_def stream0_bound_def
        stream0_def media_stream1_def)
  from 1 2 3 4 5 show ?thesis by blast
qed

text \<open>
  C3, at the failing input. Plain bootstrap fails at the bind and leaves the stream as
  constructed; \<open>push_frame\<close> (both overloads) and \<open>pull_frame\<close> then dereference the
  unassigned \<open>sender_\<close> and \<open>receiver_\<close>: they return neither an error nor an empty
  result.
\<close>

theorem frame_io_after_failed_bootstrap:
  "init env_bind_fails stream0 =
     Returns (RTP_GENERIC_ERROR, stream0, [Socket_Init, Bind INADDR_ANY 5004]) \<and>
   push_frame env_ok stream0 [1, 2, 3] 3 0 = Undefined_Behaviour \<and>
   push_frame_owned env_ok stream0 [1, 2, 3] 3 0 = Undefined_Behaviour \<and>
   pull_frame env_ok stream0 = Undefined_Behaviour"
proof -
  have 1: "init env_bind_fails stream0 =
      Returns (RTP_GENERIC_ERROR, stream0, [Socket_Init, Bind INADDR_ANY 5004])"
    by (simp add: init_def init_connection_def Let_def env_bind_fails_def env_ok_def
        stream0_def media_stream1_def)
  have 2: "sender_m stream0 = Indeterminate" "receiver_m stream0 = Indeterminate"
    by (simp_all add: stream0_def media_stream1_def)
  from 1 2 show ?thesis
    by (simp add: push_frame_def push_frame_owned_def pull_frame_def)
qed

end
